theory Spec2Isabelle
  imports Main
begin

section \<open>The multiline detector of \<open>useTextareaIsMultiline\<close>\<close>

text \<open>
  The hook keeps two measurement cells (\<open>baseHeightRef\<close>, the React state \<open>isMultiline\<close>)
  and two handle cells (\<open>debounceTimerRef\<close>, \<open>rafRef\<close>). Each run of its layout effect
  creates the closures \<open>measure\<close> (here \<open>measure_textarea\<close>, since \<open>measure\<close> is a
  constant of HOL), \<open>clearPendingTimers\<close>, \<open>debouncedMeasure\<close>, \<open>measureAfterFrame\<close>,
  \<open>handleInput\<close> and \<open>handlePaste\<close>. They are embedded below as state transformers on
  one record.

  Modelling decisions.
  \<^item> \<open>scrollHeight\<close> and \<open>clientHeight\<close> are integer pixel counts in the DOM; the two
    thresholds are taken as integers too (the defaults are 4 and 12).
  \<^item> The cells are shared by all effect runs; \<open>isMultiline\<close>, \<open>threshold\<close> and
    \<open>releaseThreshold\<close> are constants of the render whose effect created a closure. A
    closure therefore carries the three values it captured, and every pending callback
    carries the closure that scheduled it. \<open>setIsMultiline v\<close> assigns the state field;
    the captured value changes only when the effect runs again.
  \<^item> The browser's \<open>setTimeout\<close>, \<open>clearTimeout\<close>, \<open>requestAnimationFrame\<close> and
    \<open>cancelAnimationFrame\<close> are the environment: pending callbacks are kept in two
    lists, handles are fresh numbers, and cancelling a handle that is not pending does
    nothing.
\<close>

subsection \<open>Data\<close>

text \<open>What \<open>measure\<close> reads from the text area: \<open>el.value\<close> and the two heights.\<close>

record element =
  el_value :: string
  scrollHeight :: int
  clientHeight :: int

text \<open>
  What the closures of one effect run have captured: the \<open>isMultiline\<close> of that render
  and the two parameters of the hook.
\<close>

record closure =
  captured_isMultiline :: bool
  threshold :: int
  releaseThreshold :: int

text \<open>
  The two callbacks the hook hands to \<open>setTimeout\<close>: \<open>measure\<close> itself (debounce path)
  and the arrow function \<open>() => { measure(); rafRef.current = null; }\<close> (paste path),
  each of the effect run that scheduled it.
\<close>

datatype task = Debounced closure | FollowUp closure

fun isDebounced :: "task \<Rightarrow> bool" where
  "isDebounced (Debounced c) = True"
| "isDebounced (FollowUp c) = False"

text \<open>
  \<open>frames\<close> holds the pending animation-frame callbacks with the closure of the effect
  run that requested them; \<open>listeners\<close> is the effect run whose \<open>handleInput\<close> and
  \<open>handlePaste\<close> are attached to the element, if any.
\<close>

record hook =
  baseHeightRef :: "int option"
  isMultiline :: bool
  debounceTimerRef :: "nat option"
  rafRef :: "nat option"
  timeouts :: "(nat \<times> task) list"
  frames :: "(nat \<times> closure) list"
  nextTimeout :: nat
  nextFrame :: nat
  listeners :: "closure option"

definition init_hook :: hook where
  "init_hook = \<lparr> baseHeightRef = None, isMultiline = False, debounceTimerRef = None,
                 rafRef = None, timeouts = [], frames = [], nextTimeout = 1, nextFrame = 1,
                 listeners = None \<rparr>"

subsection \<open>The measurement routine\<close>

text \<open>Lines 37-45: establish the baseline when there is none.\<close>

definition calibrate :: "int \<Rightarrow> element \<Rightarrow> hook \<Rightarrow> hook" where
  "calibrate th e s =
     (case baseHeightRef s of
        None \<Rightarrow>
          if scrollHeight e > clientHeight e + th
          then s\<lparr>baseHeightRef := Some (clientHeight e)\<rparr>
          else s\<lparr>baseHeightRef := Some (scrollHeight e)\<rparr>
      | Some _ \<Rightarrow> s)"

text \<open>
  Lines 47-48: \<open>scrollHeight - baseHeightRef.current\<close>. JavaScript reads \<open>null\<close> as 0 in
  a subtraction; after \<open>calibrate\<close> the cell is never \<open>null\<close>.
\<close>

definition overflowHeight :: "element \<Rightarrow> hook \<Rightarrow> int" where
  "overflowHeight e s =
     scrollHeight e - (case baseHeightRef s of None \<Rightarrow> 0 | Some baseHeight \<Rightarrow> baseHeight)"

text \<open>
  Lines 21-61: the closure \<open>measure\<close> of the effect run \<open>c\<close>. The tests of lines 27, 55
  and 57 read the captured \<open>isMultiline\<close>; \<open>setIsMultiline\<close> writes the state.
\<close>

definition measure_textarea :: "closure \<Rightarrow> element option \<Rightarrow> hook \<Rightarrow> hook" where
  "measure_textarea c el s =
     (case el of
        None \<Rightarrow> s
      | Some e \<Rightarrow>
          if el_value e = [] then
            (let s1 = s\<lparr>baseHeightRef := None\<rparr>
             in if captured_isMultiline c then s1\<lparr>isMultiline := False\<rparr> else s1)
          else
            (let s1 = calibrate (threshold c) e s;
                 shouldBeMultiline = overflowHeight e s1 > threshold c;
                 shouldBeSingleLine = overflowHeight e s1 < - releaseThreshold c
             in if shouldBeMultiline \<and> \<not> captured_isMultiline c
                then s1\<lparr>isMultiline := True\<rparr>
                else if shouldBeSingleLine \<and> captured_isMultiline c
                then s1\<lparr>isMultiline := False, baseHeightRef := Some (scrollHeight e)\<rparr>
                else s1))"

text \<open>
  A series of \<open>measure\<close> calls, each by some closure and with the readings of the element
  at that time.
\<close>

fun evaluations :: "(closure \<times> element) list \<Rightarrow> hook \<Rightarrow> hook" where
  "evaluations [] s = s"
| "evaluations (p # ps) s = evaluations ps (measure_textarea (fst p) (Some (snd p)) s)"

subsection \<open>The browser's timers\<close>

definition setTimeout :: "task \<Rightarrow> hook \<Rightarrow> nat \<times> hook" where
  "setTimeout cb s =
     (nextTimeout s,
      s\<lparr>timeouts := timeouts s @ [(nextTimeout s, cb)], nextTimeout := Suc (nextTimeout s)\<rparr>)"

definition clearTimeout :: "nat \<Rightarrow> hook \<Rightarrow> hook" where
  "clearTimeout h s = s\<lparr>timeouts := filter (\<lambda>p. fst p \<noteq> h) (timeouts s)\<rparr>"

definition requestAnimationFrame :: "closure \<Rightarrow> hook \<Rightarrow> nat \<times> hook" where
  "requestAnimationFrame c s =
     (nextFrame s,
      s\<lparr>frames := frames s @ [(nextFrame s, c)], nextFrame := Suc (nextFrame s)\<rparr>)"

definition cancelAnimationFrame :: "nat \<Rightarrow> hook \<Rightarrow> hook" where
  "cancelAnimationFrame h s = s\<lparr>frames := filter (\<lambda>p. fst p \<noteq> h) (frames s)\<rparr>"

subsection \<open>Scheduling\<close>

text \<open>Lines 63-72.\<close>

definition clearPendingTimers :: "hook \<Rightarrow> hook" where
  "clearPendingTimers s =
     (let s1 = (case debounceTimerRef s of
                  Some h \<Rightarrow> (clearTimeout h s)\<lparr>debounceTimerRef := None\<rparr>
                | None \<Rightarrow> s)
      in case rafRef s1 of
           Some h \<Rightarrow> (cancelAnimationFrame h s1)\<lparr>rafRef := None\<rparr>
         | None \<Rightarrow> s1)"

text \<open>Lines 75-80.\<close>

definition debouncedMeasure :: "closure \<Rightarrow> hook \<Rightarrow> hook" where
  "debouncedMeasure c s =
     (let s1 = (case debounceTimerRef s of Some h \<Rightarrow> clearTimeout h s | None \<Rightarrow> s);
          r = setTimeout (Debounced c) s1
      in (snd r)\<lparr>debounceTimerRef := Some (fst r)\<rparr>)"

text \<open>Lines 84-94: the frame callback itself is \<open>frameCallback\<close> below.\<close>

definition measureAfterFrame :: "closure \<Rightarrow> hook \<Rightarrow> hook" where
  "measureAfterFrame c s =
     (let s1 = (case rafRef s of Some h \<Rightarrow> cancelAnimationFrame h s | None \<Rightarrow> s);
          r = requestAnimationFrame c s1
      in (snd r)\<lparr>rafRef := Some (fst r)\<rparr>)"

text \<open>Lines 88-93: the frame callback schedules the follow-up; its handle is dropped.\<close>

definition frameCallback :: "closure \<Rightarrow> hook \<Rightarrow> hook" where
  "frameCallback c s = snd (setTimeout (FollowUp c) s)"

text \<open>Lines 89-92: the follow-up.\<close>

definition followUp :: "closure \<Rightarrow> element option \<Rightarrow> hook \<Rightarrow> hook" where
  "followUp c el s = (measure_textarea c el s)\<lparr>rafRef := None\<rparr>"

text \<open>Lines 96-104; \<open>inputType\<close> is \<open>None\<close> for an event that carries none.\<close>

definition handleInput :: "closure \<Rightarrow> string option \<Rightarrow> hook \<Rightarrow> hook" where
  "handleInput c inputType s =
     (if inputType = Some ''insertFromPaste''
      then measureAfterFrame c (clearPendingTimers s)
      else debouncedMeasure c s)"

text \<open>Lines 106-109.\<close>

definition handlePaste :: "closure \<Rightarrow> hook \<Rightarrow> hook" where
  "handlePaste c s = measureAfterFrame c (clearPendingTimers s)"

text \<open>
  Lines 17-19 and 111-123: one run of the layout effect, in a render with the given
  parameters. React first runs the cleanup the previous run returned (lines 118-122), if
  it returned one. Without an element the effect returns at line 19 and attaches
  nothing; with one, its closures capture the current \<open>isMultiline\<close>, it measures once
  (line 112) and attaches its listeners.
\<close>

definition runEffect :: "int \<Rightarrow> int \<Rightarrow> element option \<Rightarrow> hook \<Rightarrow> hook" where
  "runEffect th rel el s =
     (let s1 = (case listeners s of None \<Rightarrow> s | Some _ \<Rightarrow> clearPendingTimers s)
      in case el of
           None \<Rightarrow> s1\<lparr>listeners := None\<rparr>
         | Some e \<Rightarrow>
             (let c = \<lparr>captured_isMultiline = isMultiline s1, threshold = th,
                       releaseThreshold = rel\<rparr>
              in (measure_textarea c (Some e) s1)\<lparr>listeners := Some c\<rparr>))"

subsection \<open>The event loop\<close>

text \<open>
  What can happen to the hook: an \<open>input\<close> or a \<open>paste\<close> event reaching the attached
  listeners, a pending timeout or frame callback running, and the layout effect running
  (on mount, and again after a render in which \<open>isMultiline\<close> or a threshold has changed;
  the model lets it run at any time). Events that run \<open>measure\<close> carry the element's
  readings at that time. A callback that is not pending cannot run, and an event with no
  listener attached is not handled: the result is \<open>None\<close>.
\<close>

datatype event =
    Input "string option"
  | Paste
  | TimeoutFires nat element
  | FrameFires nat
  | EffectRuns int int "element option"

definition exec :: "event \<Rightarrow> hook \<Rightarrow> hook option" where
  "exec ev s =
     (case ev of
        Input inputType \<Rightarrow>
          (case listeners s of None \<Rightarrow> None | Some c \<Rightarrow> Some (handleInput c inputType s))
      | Paste \<Rightarrow>
          (case listeners s of None \<Rightarrow> None | Some c \<Rightarrow> Some (handlePaste c s))
      | TimeoutFires h e \<Rightarrow>
          (case map_of (timeouts s) h of
             None \<Rightarrow> None
           | Some cb \<Rightarrow>
               (let s1 = clearTimeout h s
                in Some (case cb of
                           Debounced c \<Rightarrow> measure_textarea c (Some e) s1
                         | FollowUp c \<Rightarrow> followUp c (Some e) s1)))
      | FrameFires h \<Rightarrow>
          (case map_of (frames s) h of
             None \<Rightarrow> None
           | Some c \<Rightarrow> Some (frameCallback c (cancelAnimationFrame h s)))
      | EffectRuns th rel el \<Rightarrow> Some (runEffect th rel el s))"

fun run :: "event list \<Rightarrow> hook \<Rightarrow> hook option" where
  "run [] s = Some s"
| "run (ev # evs) s = (case exec ev s of None \<Rightarrow> None | Some s' \<Rightarrow> run evs s')"

text \<open>The states the hook can be in.\<close>

inductive reachable :: "hook \<Rightarrow> bool" where
  reachable_init: "reachable init_hook"
| reachable_step: "reachable s \<Longrightarrow> exec ev s = Some s' \<Longrightarrow> reachable s'"


definition pendingDebounced :: "hook \<Rightarrow> nat list" where
  "pendingDebounced s = map fst (filter (\<lambda>p. isDebounced (snd p)) (timeouts s))"

text \<open>The heights \<open>measure\<close> has read during a list of events (none on empty content).\<close>

fun readings :: "event list \<Rightarrow> element list" where
  "readings [] = []"
| "readings (TimeoutFires h e # evs) = (if el_value e = [] then [] else [e]) @ readings evs"
| "readings (EffectRuns th rel (Some e) # evs) =
     (if el_value e = [] then [] else [e]) @ readings evs"
| "readings (ev # evs) = readings evs"

text \<open>The baseline is \<open>null\<close> or one of the given heights.\<close>

definition baselineFrom :: "int list \<Rightarrow> hook \<Rightarrow> bool" where
  "baselineFrom hs s = (case baseHeightRef s of None \<Rightarrow> True | Some b \<Rightarrow> b \<in> set hs)"

text \<open>
  What the handle cells promise about the pending timeouts: handles are below the next
  fresh one and pairwise different, and the pending debounce callbacks are exactly the
  pending timeouts whose handle \<open>debounceTimerRef\<close> holds.
\<close>

definition sched_inv :: "hook \<Rightarrow> bool" where
  "sched_inv s \<longleftrightarrow>
     (\<forall>p \<in> set (timeouts s). fst p < nextTimeout s) \<and>
     distinct (map fst (timeouts s)) \<and>
     (\<forall>p \<in> set (timeouts s). isDebounced (snd p) = (debounceTimerRef s = Some (fst p))) \<and>
     (\<forall>h. debounceTimerRef s = Some h \<longrightarrow> h < nextTimeout s)"

subsection \<open>Example readings and runs\<close>

definition emptyField :: element where
  "emptyField = \<lparr>el_value = [], scrollHeight = 20, clientHeight = 20\<rparr>"

definition pastedText :: element where
  "pastedText = \<lparr>el_value = ''pasted'', scrollHeight = 50, clientHeight = 20\<rparr>"

definition oneLine :: element where
  "oneLine = \<lparr>el_value = ''a'', scrollHeight = 20, clientHeight = 20\<rparr>"

text \<open>The closures of the effect run that mounts the hook with the default thresholds.\<close>

definition mountClosure :: closure where
  "mountClosure = \<lparr>captured_isMultiline = False, threshold = 4, releaseThreshold = 12\<rparr>"

text \<open>
  A run in which a frame request of the first effect run outlives that run's cleanup.
  The hook mounts on an empty field. A paste requests frame 1, which fires and leaves
  its follow-up pending; a second paste cannot cancel that follow-up and requests
  frame 2. The follow-up measures the pasted text, sets \<open>isMultiline\<close> and clears
  \<open>rafRef\<close>, although \<open>rafRef\<close> holds frame 2. The effect runs again for the new
  \<open>isMultiline\<close>; its cleanup finds \<open>rafRef\<close> empty and leaves frame 2 pending. Frame 2
  fires, and its follow-up, a closure of the first effect run, is left pending.
\<close>

definition staleFollowUpPending :: "event list" where
  "staleFollowUpPending =
     [EffectRuns 4 12 (Some emptyField), Paste, FrameFires 1, Paste,
      TimeoutFires 1 pastedText, EffectRuns 4 12 (Some pastedText), FrameFires 2]"

section \<open>Properties of a single measurement\<close>

lemma measure_empty:
  "el_value e = [] \<Longrightarrow>
   measure_textarea c (Some e) s =
     (if captured_isMultiline c then s\<lparr>baseHeightRef := None, isMultiline := False\<rparr>
      else s\<lparr>baseHeightRef := None\<rparr>)"
  by (simp add: measure_textarea_def Let_def)

lemma measure_calibrated:
  "el_value e \<noteq> [] \<Longrightarrow> baseHeightRef s = Some b \<Longrightarrow>
   measure_textarea c (Some e) s =
     (if scrollHeight e - b > threshold c \<and> \<not> captured_isMultiline c
      then s\<lparr>isMultiline := True\<rparr>
      else if scrollHeight e - b < - releaseThreshold c \<and> captured_isMultiline c
      then s\<lparr>isMultiline := False, baseHeightRef := Some (scrollHeight e)\<rparr>
      else s)"
  by (simp add: measure_textarea_def calibrate_def overflowHeight_def Let_def)

lemma set_isMultiline_same: "isMultiline s = v \<Longrightarrow> s\<lparr>isMultiline := v\<rparr> = s"
  by (cases s) simp

lemma set_baseHeightRef_same: "baseHeightRef s = v \<Longrightarrow> s\<lparr>baseHeightRef := v\<rparr> = s"
  by (cases s) simp

lemma evaluations_fixed:
  "\<forall>p \<in> set ps. measure_textarea (fst p) (Some (snd p)) s = s \<Longrightarrow> evaluations ps s = s"
  by (induction ps) simp_all

lemma measure_keeps_scheduling:
  "debounceTimerRef (measure_textarea c el s) = debounceTimerRef s"
  "rafRef (measure_textarea c el s) = rafRef s"
  "timeouts (measure_textarea c el s) = timeouts s"
  "frames (measure_textarea c el s) = frames s"
  "nextTimeout (measure_textarea c el s) = nextTimeout s"
  "nextFrame (measure_textarea c el s) = nextFrame s"
  "listeners (measure_textarea c el s) = listeners s"
  by (simp_all add: measure_textarea_def calibrate_def Let_def split: option.splits)

section \<open>Scheduling leaves the measurement cells alone\<close>

lemma clearPendingTimers_keeps:
  "baseHeightRef (clearPendingTimers s) = baseHeightRef s"
  "isMultiline (clearPendingTimers s) = isMultiline s"
  "listeners (clearPendingTimers s) = listeners s"
  by (simp_all add: clearPendingTimers_def clearTimeout_def cancelAnimationFrame_def Let_def
      split: option.splits)

lemma debouncedMeasure_keeps:
  "baseHeightRef (debouncedMeasure c s) = baseHeightRef s"
  "isMultiline (debouncedMeasure c s) = isMultiline s"
  by (simp_all add: debouncedMeasure_def clearTimeout_def setTimeout_def Let_def
      split: option.splits)

lemma measureAfterFrame_keeps:
  "baseHeightRef (measureAfterFrame c s) = baseHeightRef s"
  "isMultiline (measureAfterFrame c s) = isMultiline s"
  by (simp_all add: measureAfterFrame_def cancelAnimationFrame_def requestAnimationFrame_def
      Let_def split: option.splits)

lemma handlers_keep:
  "baseHeightRef (handleInput c t s) = baseHeightRef s"
  "isMultiline (handleInput c t s) = isMultiline s"
  "baseHeightRef (handlePaste c s) = baseHeightRef s"
  "isMultiline (handlePaste c s) = isMultiline s"
  by (simp_all add: handleInput_def handlePaste_def clearPendingTimers_keeps
      debouncedMeasure_keeps measureAfterFrame_keeps)

lemma frame_keeps:
  "baseHeightRef (frameCallback c (cancelAnimationFrame h s)) = baseHeightRef s"
  "isMultiline (frameCallback c (cancelAnimationFrame h s)) = isMultiline s"
  "baseHeightRef (clearTimeout h s) = baseHeightRef s"
  "isMultiline (clearTimeout h s) = isMultiline s"
  by (simp_all add: frameCallback_def cancelAnimationFrame_def setTimeout_def clearTimeout_def)

lemma run_reachable: "reachable s \<Longrightarrow> run evs s = Some s' \<Longrightarrow> reachable s'"
proof (induction evs arbitrary: s)
  case Nil
  then show ?case by simp
next
  case (Cons ev evs)
  then show ?case
    by (auto split: option.splits intro: reachable_step)
qed

section \<open>Where the baseline comes from\<close>

lemma measure_baseline:
  "baseHeightRef (measure_textarea c (Some e) s) = Some b \<Longrightarrow>
   baseHeightRef s = Some b \<or> (el_value e \<noteq> [] \<and> (b = scrollHeight e \<or> b = clientHeight e))"
  by (auto simp: measure_textarea_def calibrate_def Let_def split: if_splits option.splits)

lemma readings_Cons: "readings (ev # evs) = readings [ev] @ readings evs"
proof (cases ev)
  case (EffectRuns th rel el)
  then show ?thesis by (cases el) simp_all
qed simp_all

lemma exec_baseline:
  assumes "exec ev s = Some s'" and "baseHeightRef s' = Some b"
  shows "baseHeightRef s = Some b
         \<or> (\<exists>e \<in> set (readings [ev]). b = scrollHeight e \<or> b = clientHeight e)"
proof (cases ev)
  case (Input t)
  with assms show ?thesis by (auto simp: exec_def handlers_keep split: option.splits)
next
  case Paste
  with assms show ?thesis by (auto simp: exec_def handlers_keep split: option.splits)
next
  case (TimeoutFires h e)
  with assms obtain cb where s':
    "s' = (case cb of Debounced c \<Rightarrow> measure_textarea c (Some e) (clearTimeout h s)
           | FollowUp c \<Rightarrow> followUp c (Some e) (clearTimeout h s))"
    by (auto simp: exec_def Let_def split: option.splits)
  then obtain c where
    "baseHeightRef s' = baseHeightRef (measure_textarea c (Some e) (clearTimeout h s))"
    by (cases cb) (simp_all add: followUp_def)
  with assms(2) show ?thesis
    using measure_baseline [of c e "clearTimeout h s" b] TimeoutFires
    by (auto simp: frame_keeps)
next
  case (FrameFires h)
  with assms show ?thesis by (auto simp: exec_def frame_keeps split: option.splits)
next
  case (EffectRuns th rel el)
  show ?thesis
  proof (cases el)
    case None
    with assms EffectRuns show ?thesis
      by (auto simp: exec_def runEffect_def clearPendingTimers_keeps Let_def
          split: option.splits)
  next
    case (Some e)
    let ?s1 = "case listeners s of None \<Rightarrow> s | Some _ \<Rightarrow> clearPendingTimers s"
    have keep: "baseHeightRef ?s1 = baseHeightRef s"
      by (simp add: clearPendingTimers_keeps split: option.splits)
    let ?c = "\<lparr>captured_isMultiline = isMultiline ?s1, threshold = th,
                releaseThreshold = rel\<rparr>"
    from assms(1) EffectRuns Some have
      "s' = (measure_textarea ?c (Some e) ?s1)\<lparr>listeners := Some ?c\<rparr>"
      by (simp add: exec_def runEffect_def Let_def)
    then have "baseHeightRef s' = baseHeightRef (measure_textarea ?c (Some e) ?s1)"
      by simp
    with assms(2) measure_baseline [of ?c e ?s1 b] keep EffectRuns Some
    show ?thesis by auto
  qed
qed

lemma run_baseline:
  "run evs s0 = Some s \<Longrightarrow> baseHeightRef s = Some b \<Longrightarrow>
   baseHeightRef s0 = Some b
   \<or> (\<exists>e \<in> set (readings evs). b = scrollHeight e \<or> b = clientHeight e)"
proof (induction evs arbitrary: s0)
  case Nil
  then show ?case by simp
next
  case (Cons ev evs)
  from Cons.prems(1) obtain s1 where s1: "exec ev s0 = Some s1" "run evs s1 = Some s"
    by (auto split: option.splits)
  from Cons.IH [OF s1(2) Cons.prems(2)] show ?case
  proof
    assume "baseHeightRef s1 = Some b"
    from exec_baseline [OF s1(1) this] show ?thesis
      by (subst readings_Cons) auto
  next
    assume "\<exists>e \<in> set (readings evs). b = scrollHeight e \<or> b = clientHeight e"
    then show ?thesis by (subst readings_Cons) auto
  qed
qed

section \<open>The handle cells and the pending callbacks\<close>

lemma sched_inv_init: "sched_inv init_hook"
  by (simp add: sched_inv_def init_hook_def)

lemma sched_inv_clearTimeout: "sched_inv s \<Longrightarrow> sched_inv (clearTimeout h s)"
  by (auto simp: sched_inv_def clearTimeout_def distinct_map_filter)

lemma sched_inv_cancelAnimationFrame: "sched_inv s \<Longrightarrow> sched_inv (cancelAnimationFrame h s)"
  by (auto simp: sched_inv_def cancelAnimationFrame_def)

lemma sched_inv_measure: "sched_inv s \<Longrightarrow> sched_inv (measure_textarea c el s)"
  by (simp add: sched_inv_def measure_keeps_scheduling)

lemma sched_inv_followUp: "sched_inv s \<Longrightarrow> sched_inv (followUp c el s)"
  by (simp add: sched_inv_def followUp_def measure_keeps_scheduling)

lemma sched_inv_listeners: "sched_inv s \<Longrightarrow> sched_inv (s\<lparr>listeners := l\<rparr>)"
  by (simp add: sched_inv_def)

lemma sched_inv_clearPendingTimers: "sched_inv s \<Longrightarrow> sched_inv (clearPendingTimers s)"
  by (auto simp: sched_inv_def clearPendingTimers_def clearTimeout_def cancelAnimationFrame_def
      distinct_map_filter Let_def split: option.splits)

lemma sched_inv_debouncedMeasure: "sched_inv s \<Longrightarrow> sched_inv (debouncedMeasure c s)"
  by (auto simp: sched_inv_def debouncedMeasure_def clearTimeout_def setTimeout_def
      distinct_map_filter Let_def less_Suc_eq split: option.splits)

lemma sched_inv_measureAfterFrame: "sched_inv s \<Longrightarrow> sched_inv (measureAfterFrame c s)"
  by (auto simp: sched_inv_def measureAfterFrame_def cancelAnimationFrame_def
      requestAnimationFrame_def Let_def split: option.splits)

lemma sched_inv_frameCallback: "sched_inv s \<Longrightarrow> sched_inv (frameCallback c s)"
  by (auto simp: sched_inv_def frameCallback_def setTimeout_def less_Suc_eq)

lemma sched_inv_runEffect: "sched_inv s \<Longrightarrow> sched_inv (runEffect th rel el s)"
  by (auto simp: runEffect_def Let_def sched_inv_listeners sched_inv_measure
      sched_inv_clearPendingTimers split: option.splits)

lemma exec_sched_inv:
  assumes "exec ev s = Some s'" and "sched_inv s"
  shows "sched_inv s'"
proof (cases ev)
  case (Input t)
  with assms show ?thesis
    by (auto simp: exec_def handleInput_def sched_inv_debouncedMeasure
        sched_inv_measureAfterFrame sched_inv_clearPendingTimers split: option.splits)
next
  case Paste
  with assms show ?thesis
    by (auto simp: exec_def handlePaste_def sched_inv_measureAfterFrame
        sched_inv_clearPendingTimers split: option.splits)
next
  case (TimeoutFires h e)
  with assms obtain cb where s':
    "s' = (case cb of Debounced c \<Rightarrow> measure_textarea c (Some e) (clearTimeout h s)
           | FollowUp c \<Rightarrow> followUp c (Some e) (clearTimeout h s))"
    by (auto simp: exec_def Let_def split: option.splits)
  show ?thesis
    using sched_inv_clearTimeout [OF assms(2), of h]
    by (cases cb) (simp_all add: s' sched_inv_measure sched_inv_followUp)
next
  case (FrameFires h)
  with assms show ?thesis
    by (auto simp: exec_def sched_inv_frameCallback sched_inv_cancelAnimationFrame
        split: option.splits)
next
  case (EffectRuns th rel el)
  with assms show ?thesis
    by (auto simp: exec_def sched_inv_runEffect)
qed

lemma reachable_sched_inv: "reachable s \<Longrightarrow> sched_inv s"
proof (induction rule: reachable.induct)
  case reachable_init
  show ?case by (rule sched_inv_init)
next
  case (reachable_step s ev s')
  then show ?case using exec_sched_inv by blast
qed

lemma nonDebounced_timeouts:
  "sched_inv s \<Longrightarrow>
   filter (\<lambda>p. Some (fst p) \<noteq> debounceTimerRef s) (timeouts s)
     = filter (\<lambda>p. \<not> isDebounced (snd p)) (timeouts s)"
  by (rule filter_cong) (auto simp: sched_inv_def)

lemma debouncedMeasure_raw:
  "debouncedMeasure c s =
     s\<lparr>timeouts := filter (\<lambda>p. Some (fst p) \<noteq> debounceTimerRef s) (timeouts s)
                      @ [(nextTimeout s, Debounced c)],
       nextTimeout := Suc (nextTimeout s),
       debounceTimerRef := Some (nextTimeout s)\<rparr>"
  by (cases "debounceTimerRef s")
    (simp_all add: debouncedMeasure_def clearTimeout_def setTimeout_def Let_def)

lemma paste_raw:
  "measureAfterFrame c (clearPendingTimers s) =
     s\<lparr>debounceTimerRef := None,
       rafRef := Some (nextFrame s),
       timeouts := filter (\<lambda>p. Some (fst p) \<noteq> debounceTimerRef s) (timeouts s),
       frames := filter (\<lambda>p. Some (fst p) \<noteq> rafRef s) (frames s) @ [(nextFrame s, c)],
       nextFrame := Suc (nextFrame s)\<rparr>"
  by (cases "debounceTimerRef s"; cases "rafRef s")
    (simp_all add: measureAfterFrame_def clearPendingTimers_def clearTimeout_def
      cancelAnimationFrame_def requestAnimationFrame_def Let_def)

lemma pendingDebounced_ref:
  "sched_inv s \<Longrightarrow> h \<in> set (pendingDebounced s) \<Longrightarrow> debounceTimerRef s = Some h"
  by (auto simp: sched_inv_def pendingDebounced_def)



lemma exec_dead_handle:
  assumes "exec ev s = Some s'" and "h < nextTimeout s" and "h \<notin> fst ` set (timeouts s)"
  shows "(\<forall>e. ev \<noteq> TimeoutFires h e) \<and> h < nextTimeout s' \<and> h \<notin> fst ` set (timeouts s')"
proof (cases ev)
  case (Input t)
  with assms show ?thesis
    by (auto simp: exec_def handleInput_def debouncedMeasure_raw paste_raw
        split: option.splits if_splits)
next
  case Paste
  with assms show ?thesis
    by (auto simp: exec_def handlePaste_def paste_raw split: option.splits)
next
  case (TimeoutFires h' e)
  with assms obtain cb where cb: "map_of (timeouts s) h' = Some cb" and s':
    "s' = (case cb of Debounced c \<Rightarrow> measure_textarea c (Some e) (clearTimeout h' s)
           | FollowUp c \<Rightarrow> followUp c (Some e) (clearTimeout h' s))"
    by (auto simp: exec_def Let_def split: option.splits)
  from cb have "h' \<in> fst ` set (timeouts s)"
    by (metis map_of_SomeD fst_conv image_eqI)
  with assms(3) have "h' \<noteq> h" by blast
  moreover have "timeouts s' = timeouts (clearTimeout h' s)"
    "nextTimeout s' = nextTimeout (clearTimeout h' s)"
    by (cases cb; simp add: s' followUp_def measure_keeps_scheduling)+
  ultimately show ?thesis
    using assms(2,3) TimeoutFires by (auto simp: clearTimeout_def)
next
  case (FrameFires f)
  with assms show ?thesis
    by (auto simp: exec_def frameCallback_def cancelAnimationFrame_def setTimeout_def
        split: option.splits)
next
  case (EffectRuns th rel el)
  with assms show ?thesis
    by (auto simp: exec_def runEffect_def measure_keeps_scheduling clearPendingTimers_def
        clearTimeout_def cancelAnimationFrame_def Let_def split: option.splits)
qed

lemma run_dead_handle:
  "run evs s = Some s' \<Longrightarrow> h < nextTimeout s \<Longrightarrow> h \<notin> fst ` set (timeouts s) \<Longrightarrow>
   \<forall>e. TimeoutFires h e \<notin> set evs"
proof (induction evs arbitrary: s)
  case Nil
  then show ?case by simp
next
  case (Cons ev evs)
  from Cons.prems(1) obtain s1 where s1: "exec ev s = Some s1" "run evs s1 = Some s'"
    by (auto split: option.splits)
  from exec_dead_handle [OF s1(1) Cons.prems(2,3)] Cons.IH [OF s1(2)]
  show ?case by auto
qed

section \<open>Example runs, evaluated\<close>


lemma mounted_typing:
  "run [EffectRuns 4 12 (Some emptyField), Input (Some ''insertText'')] init_hook =
     Some (init_hook\<lparr>debounceTimerRef := Some 1, timeouts := [(1, Debounced mountClosure)],
                      nextTimeout := 2, listeners := Some mountClosure\<rparr>)"
  by (simp add: exec_def runEffect_def handleInput_def debouncedMeasure_raw
      measure_textarea_def emptyField_def mountClosure_def init_hook_def Let_def)


text \<open>
  The state after \<open>staleFollowUpPending\<close>: the second effect run, which captured
  \<open>isMultiline = true\<close>, is attached; the pending follow-up is of the first, which
  captured \<open>false\<close>.
\<close>

lemma staleFollowUpPending_state:
  "run staleFollowUpPending init_hook =
     Some (init_hook\<lparr>baseHeightRef := Some 20, isMultiline := True,
                      timeouts := [(2, FollowUp mountClosure)],
                      nextTimeout := 3, nextFrame := 3,
                      listeners := Some (mountClosure\<lparr>captured_isMultiline := True\<rparr>)\<rparr>)"
  by (simp add: staleFollowUpPending_def exec_def runEffect_def handlePaste_def
      measureAfterFrame_def requestAnimationFrame_def
      frameCallback_def cancelAnimationFrame_def clearTimeout_def setTimeout_def followUp_def
      clearPendingTimers_def measure_textarea_def calibrate_def overflowHeight_def
      emptyField_def pastedText_def mountClosure_def init_hook_def Let_def)

lemma run_append:
  "run (evs @ evs') s = (case run evs s of None \<Rightarrow> None | Some s' \<Rightarrow> run evs' s')"
  by (induction evs arbitrary: s) (auto split: option.splits)

section \<open>Claims about the measurement routine\<close>

text \<open>
  C1, as the code has it. Let \<open>measure\<close> run on non-empty content with a calibrated
  baseline. It sets \<open>isMultiline\<close> when the overflow exceeds \<open>threshold\<close> and the
  \<open>isMultiline\<close> its closure captured is false; otherwise, when the overflow is below
  \<open>- releaseThreshold\<close> and the captured \<open>isMultiline\<close> is true, it clears
  \<open>isMultiline\<close> and moves the baseline to the current \<open>scrollHeight\<close>; otherwise it
  changes nothing. For a closure that captured the current \<open>isMultiline\<close> this is the
  rule of the specification; and then, provided \<open>- releaseThreshold \<le> threshold\<close>, an
  overflow above \<open>threshold\<close> gives \<open>isMultiline\<close> true whatever the state before. Once
  \<open>isMultiline\<close> is true, it stays true (and the state stays the same) over any further
  measurements, by any closures, whose overflow is not below their
  \<open>- releaseThreshold\<close>.
\<close>

theorem evaluate_hysteresis:
  assumes ne: "el_value e \<noteq> []" and cal: "baseHeightRef s = Some b"
  shows "measure_textarea c (Some e) s =
           (if overflowHeight e s > threshold c \<and> \<not> captured_isMultiline c
            then s\<lparr>isMultiline := True\<rparr>
            else if overflowHeight e s < - releaseThreshold c \<and> captured_isMultiline c
            then s\<lparr>isMultiline := False, baseHeightRef := Some (scrollHeight e)\<rparr>
            else s)
         \<and> (captured_isMultiline c = isMultiline s \<longrightarrow>
              measure_textarea c (Some e) s =
                (if overflowHeight e s > threshold c \<and> \<not> isMultiline s
                 then s\<lparr>isMultiline := True\<rparr>
                 else if overflowHeight e s < - releaseThreshold c \<and> isMultiline s
                 then s\<lparr>isMultiline := False, baseHeightRef := Some (scrollHeight e)\<rparr>
                 else s))
         \<and> (captured_isMultiline c = isMultiline s \<and> - releaseThreshold c \<le> threshold c
              \<and> overflowHeight e s > threshold c
              \<longrightarrow> isMultiline (measure_textarea c (Some e) s))
         \<and> (isMultiline s
              \<and> (\<forall>p \<in> set ps. el_value (snd p) \<noteq> []
                    \<and> \<not> overflowHeight (snd p) s < - releaseThreshold (fst p))
              \<longrightarrow> evaluations ps s = s)"
proof -
  have ov: "overflowHeight e' s = scrollHeight e' - b" for e'
    using cal by (simp add: overflowHeight_def)
  have step: "measure_textarea c' (Some e') s =
           (if overflowHeight e' s > threshold c' \<and> \<not> captured_isMultiline c'
            then s\<lparr>isMultiline := True\<rparr>
            else if overflowHeight e' s < - releaseThreshold c' \<and> captured_isMultiline c'
            then s\<lparr>isMultiline := False, baseHeightRef := Some (scrollHeight e')\<rparr>
            else s)" if "el_value e' \<noteq> []" for e' c'
    using measure_calibrated [OF that cal, of c'] by (simp add: ov)
  have trig: "isMultiline (measure_textarea c (Some e) s)"
    if "captured_isMultiline c = isMultiline s" "- releaseThreshold c \<le> threshold c"
      "overflowHeight e s > threshold c"
    using that by (simp add: step [OF ne])
  have stay: "evaluations ps s = s"
    if "isMultiline s"
      "\<forall>p \<in> set ps. el_value (snd p) \<noteq> []
         \<and> \<not> overflowHeight (snd p) s < - releaseThreshold (fst p)"
    using that by (intro evaluations_fixed) (simp add: step set_isMultiline_same)
  have cur: "measure_textarea c (Some e) s =
                (if overflowHeight e s > threshold c \<and> \<not> isMultiline s
                 then s\<lparr>isMultiline := True\<rparr>
                 else if overflowHeight e s < - releaseThreshold c \<and> isMultiline s
                 then s\<lparr>isMultiline := False, baseHeightRef := Some (scrollHeight e)\<rparr>
                 else s)" if "captured_isMultiline c = isMultiline s"
    using step [OF ne, of c] that by simp
  show ?thesis using step [OF ne] cur trig stay by blast
qed

theorem evaluate_hysteresis_witness:
  "el_value \<lparr>el_value = ''ab'', scrollHeight = 26, clientHeight = 20\<rparr> \<noteq> []
   \<and> baseHeightRef (init_hook\<lparr>baseHeightRef := Some 20, isMultiline := True\<rparr>) = Some 20
   \<and> captured_isMultiline (mountClosure\<lparr>captured_isMultiline := True\<rparr>)
       = isMultiline (init_hook\<lparr>baseHeightRef := Some 20, isMultiline := True\<rparr>)
   \<and> - releaseThreshold (mountClosure\<lparr>captured_isMultiline := True\<rparr>)
       \<le> threshold (mountClosure\<lparr>captured_isMultiline := True\<rparr>)
   \<and> overflowHeight \<lparr>el_value = ''ab'', scrollHeight = 26, clientHeight = 20\<rparr>
       (init_hook\<lparr>baseHeightRef := Some 20, isMultiline := True\<rparr>)
       > threshold (mountClosure\<lparr>captured_isMultiline := True\<rparr>)
   \<and> isMultiline (measure_textarea (mountClosure\<lparr>captured_isMultiline := True\<rparr>)
       (Some \<lparr>el_value = ''ab'', scrollHeight = 26, clientHeight = 20\<rparr>)
       (init_hook\<lparr>baseHeightRef := Some 20, isMultiline := True\<rparr>))
   \<and> el_value \<lparr>el_value = ''a'', scrollHeight = 15, clientHeight = 20\<rparr> \<noteq> []
   \<and> \<not> overflowHeight \<lparr>el_value = ''a'', scrollHeight = 15, clientHeight = 20\<rparr>
         (init_hook\<lparr>baseHeightRef := Some 20, isMultiline := True\<rparr>)
       < - releaseThreshold mountClosure
   \<and> evaluations [(mountClosure, \<lparr>el_value = ''a'', scrollHeight = 15, clientHeight = 20\<rparr>)]
       (init_hook\<lparr>baseHeightRef := Some 20, isMultiline := True\<rparr>)
     = init_hook\<lparr>baseHeightRef := Some 20, isMultiline := True\<rparr>"
  using evaluate_hysteresis
    [where e = "\<lparr>el_value = ''ab'', scrollHeight = 26, clientHeight = 20\<rparr>"
       and s = "init_hook\<lparr>baseHeightRef := Some 20, isMultiline := True\<rparr>"
       and b = 20 and c = "mountClosure\<lparr>captured_isMultiline := True\<rparr>"
       and ps = "[(mountClosure, \<lparr>el_value = ''a'', scrollHeight = 15, clientHeight = 20\<rparr>)]"]
  by (simp add: overflowHeight_def mountClosure_def)

text \<open>
  C1 as the specification states it fails where the band is inverted. With
  \<open>threshold = -20\<close> and \<open>releaseThreshold = -10\<close> the mounting effect measures 20/20
  and sets \<open>isMultiline\<close> (baseline 20). The effect runs again and captures \<open>true\<close>; the
  readings are now 5/20, the overflow, \<open>-15\<close>, exceeds the threshold, and \<open>isMultiline\<close>
  becomes false.
\<close>

theorem evaluate_hysteresis_counterexample:
  "map_option isMultiline
     (run [EffectRuns (- 20) (- 10)
             (Some \<lparr>el_value = ''ab'', scrollHeight = 20, clientHeight = 20\<rparr>)] init_hook)
     = Some True
   \<and> map_option (overflowHeight \<lparr>el_value = ''a'', scrollHeight = 5, clientHeight = 20\<rparr>)
     (run [EffectRuns (- 20) (- 10)
             (Some \<lparr>el_value = ''ab'', scrollHeight = 20, clientHeight = 20\<rparr>)] init_hook)
     = Some (- 15)
   \<and> map_option isMultiline
     (run [EffectRuns (- 20) (- 10)
             (Some \<lparr>el_value = ''ab'', scrollHeight = 20, clientHeight = 20\<rparr>),
           EffectRuns (- 20) (- 10)
             (Some \<lparr>el_value = ''a'', scrollHeight = 5, clientHeight = 20\<rparr>)] init_hook)
     = Some False"
  by (simp add: exec_def runEffect_def clearPendingTimers_def measure_textarea_def
      calibrate_def overflowHeight_def init_hook_def Let_def)

text \<open>
  C2. With a \<open>null\<close> baseline, the calibration step of \<open>measure\<close> sets the baseline to
  \<open>clientHeight\<close> when \<open>scrollHeight > clientHeight + threshold\<close> and to \<open>scrollHeight\<close>
  otherwise. On non-empty content \<open>measure\<close> ends with that baseline, except when its
  closure captured \<open>isMultiline = true\<close> and the calibrated overflow is below
  \<open>- releaseThreshold\<close>: then line 59 moves it to \<open>scrollHeight\<close>. From the empty
  field, content of height 50 in a viewport of height 20 with threshold 4 gives
  baseline 20, overflow 30 and \<open>isMultiline\<close> true in that one call, also when the call
  is the follow-up of a paste.
\<close>

theorem first_measurement_calibrates:
  "(baseHeightRef s = None \<longrightarrow>
      baseHeightRef (calibrate th e s) =
        Some (if scrollHeight e > clientHeight e + th then clientHeight e else scrollHeight e))
   \<and> (baseHeightRef s = None \<and> el_value e \<noteq> [] \<longrightarrow>
      baseHeightRef (measure_textarea c (Some e) s) =
        Some (if captured_isMultiline c
                 \<and> overflowHeight e (calibrate (threshold c) e s) < - releaseThreshold c
              then scrollHeight e
              else if scrollHeight e > clientHeight e + threshold c then clientHeight e
              else scrollHeight e))
   \<and> (baseHeightRef s = None \<and> el_value e \<noteq> [] \<and> \<not> captured_isMultiline c \<longrightarrow>
      baseHeightRef (measure_textarea c (Some e) s) =
        Some (if scrollHeight e > clientHeight e + threshold c then clientHeight e
              else scrollHeight e))
   \<and> measure_textarea mountClosure (Some pastedText)
       (measure_textarea mountClosure (Some emptyField) init_hook)
     = init_hook\<lparr>baseHeightRef := Some 20, isMultiline := True\<rparr>
   \<and> overflowHeight pastedText (calibrate 4 pastedText init_hook) = 30
   \<and> run [EffectRuns 4 12 (Some emptyField), Paste, FrameFires 1, TimeoutFires 1 pastedText]
        init_hook
     = Some (init_hook\<lparr>baseHeightRef := Some 20, isMultiline := True, nextTimeout := 2,
                        nextFrame := 2, listeners := Some mountClosure\<rparr>)"
proof -
  have a: "baseHeightRef (calibrate th e s) =
        Some (if scrollHeight e > clientHeight e + th then clientHeight e else scrollHeight e)"
    if "baseHeightRef s = None"
    using that by (simp add: calibrate_def)
  have b: "baseHeightRef (measure_textarea c (Some e) s) =
        Some (if captured_isMultiline c
                 \<and> overflowHeight e (calibrate (threshold c) e s) < - releaseThreshold c
              then scrollHeight e
              else if scrollHeight e > clientHeight e + threshold c then clientHeight e
              else scrollHeight e)"
    if "baseHeightRef s = None" "el_value e \<noteq> []"
    using that by (simp add: measure_textarea_def calibrate_def overflowHeight_def Let_def)
  have c: "baseHeightRef (measure_textarea c (Some e) s) =
        Some (if scrollHeight e > clientHeight e + threshold c then clientHeight e
              else scrollHeight e)"
    if "baseHeightRef s = None" "el_value e \<noteq> []" "\<not> captured_isMultiline c"
    using b [OF that(1,2)] that(3) by simp
  have d: "measure_textarea mountClosure (Some pastedText)
       (measure_textarea mountClosure (Some emptyField) init_hook)
     = init_hook\<lparr>baseHeightRef := Some 20, isMultiline := True\<rparr>"
    by (simp add: measure_textarea_def calibrate_def overflowHeight_def init_hook_def
        mountClosure_def pastedText_def emptyField_def Let_def)
  have e: "overflowHeight pastedText (calibrate 4 pastedText init_hook) = 30"
    by (simp add: calibrate_def overflowHeight_def init_hook_def pastedText_def)
  have f: "run [EffectRuns 4 12 (Some emptyField), Paste, FrameFires 1,
                TimeoutFires 1 pastedText] init_hook
     = Some (init_hook\<lparr>baseHeightRef := Some 20, isMultiline := True, nextTimeout := 2,
                        nextFrame := 2, listeners := Some mountClosure\<rparr>)"
    by (simp add: exec_def runEffect_def handlePaste_def measureAfterFrame_def
        requestAnimationFrame_def clearPendingTimers_def frameCallback_def
        cancelAnimationFrame_def clearTimeout_def setTimeout_def followUp_def
        measure_textarea_def calibrate_def overflowHeight_def init_hook_def
        mountClosure_def pastedText_def emptyField_def Let_def)
  from a b c d e f show ?thesis by blast
qed

theorem first_measurement_calibrates_witness:
  "baseHeightRef init_hook = None
   \<and> el_value \<lparr>el_value = ''ab'', scrollHeight = 22, clientHeight = 20\<rparr> \<noteq> []
   \<and> \<not> captured_isMultiline mountClosure
   \<and> baseHeightRef (calibrate 4 \<lparr>el_value = ''ab'', scrollHeight = 22, clientHeight = 20\<rparr>
        init_hook) = Some 22
   \<and> baseHeightRef (measure_textarea mountClosure
        (Some \<lparr>el_value = ''ab'', scrollHeight = 22, clientHeight = 20\<rparr>) init_hook) = Some 22"
  using first_measurement_calibrates
    [where s = init_hook and th = 4 and c = mountClosure
       and e = "\<lparr>el_value = ''ab'', scrollHeight = 22, clientHeight = 20\<rparr>"]
  by (simp add: init_hook_def mountClosure_def)

text \<open>
  C5, the code at the failing input. After \<open>staleFollowUpPending\<close> the state has
  \<open>isMultiline = true\<close>, and the pending follow-up is a closure that captured \<open>false\<close>.
  It fires on an empty field: line 26 clears the baseline, the test of line 27 reads the
  captured \<open>false\<close>, and \<open>isMultiline\<close> is still true after the call.
\<close>

theorem empty_reset_by_stale_closure:
  "map_option isMultiline (run staleFollowUpPending init_hook) = Some True
   \<and> map_option isMultiline
       (run (staleFollowUpPending @ [TimeoutFires 2 emptyField]) init_hook) = Some True
   \<and> measure_textarea mountClosure (Some emptyField)
       (init_hook\<lparr>baseHeightRef := Some 20, isMultiline := True\<rparr>)
     = init_hook\<lparr>baseHeightRef := None, isMultiline := True\<rparr>"
  unfolding run_append staleFollowUpPending_state
  by (simp add: exec_def clearTimeout_def followUp_def
      measure_textarea_def emptyField_def mountClosure_def init_hook_def Let_def)

text \<open>
  What line 27 does achieve: a closure whose captured \<open>isMultiline\<close> is the current one
  leaves \<open>isMultiline\<close> false on an empty field.
\<close>

lemma measure_empty_current:
  "el_value e = [] \<Longrightarrow> captured_isMultiline c = isMultiline s \<Longrightarrow>
   measure_textarea c (Some e) s = s\<lparr>baseHeightRef := None, isMultiline := False\<rparr>"
  by (cases s) (simp add: measure_empty)

text \<open>
  C6. With a baseline \<open>b\<close> and a series of measurements on non-empty content, by any
  closures, whose overflow against \<open>b\<close> lies strictly between \<open>- releaseThreshold\<close> and
  \<open>threshold\<close>, \<open>isMultiline\<close> after every prefix of the series is what it was at the
  start, and the baseline is still \<open>b\<close>.
\<close>

theorem dead_band_no_flicker:
  assumes cal: "baseHeightRef s = Some b"
    and band: "\<forall>p \<in> set ps. el_value (snd p) \<noteq> []
                 \<and> - releaseThreshold (fst p) < overflowHeight (snd p) s
                 \<and> overflowHeight (snd p) s < threshold (fst p)"
  shows "isMultiline (evaluations (take k ps) s) = isMultiline s
         \<and> baseHeightRef (evaluations (take k ps) s) = Some b"
proof -
  have "measure_textarea (fst p) (Some (snd p)) s = s" if "p \<in> set (take k ps)" for p
  proof -
    from that have "p \<in> set ps" by (rule in_set_takeD)
    with band have "el_value (snd p) \<noteq> []"
      "- releaseThreshold (fst p) < overflowHeight (snd p) s"
      "overflowHeight (snd p) s < threshold (fst p)"
      by auto
    then show ?thesis
      using cal by (simp add: measure_calibrated [OF _ cal] overflowHeight_def)
  qed
  then have "evaluations (take k ps) s = s"
    by (intro evaluations_fixed) blast
  then show ?thesis using cal by simp
qed

theorem dead_band_no_flicker_witness:
  "baseHeightRef (init_hook\<lparr>baseHeightRef := Some 20, isMultiline := True\<rparr>) = Some 20
   \<and> map (\<lambda>p. (- releaseThreshold (fst p),
               overflowHeight (snd p) (init_hook\<lparr>baseHeightRef := Some 20, isMultiline := True\<rparr>),
               threshold (fst p), el_value (snd p)))
         [(mountClosure, \<lparr>el_value = ''a'', scrollHeight = 23, clientHeight = 20\<rparr>),
          (mountClosure\<lparr>captured_isMultiline := True\<rparr>,
           \<lparr>el_value = ''b'', scrollHeight = 9, clientHeight = 20\<rparr>),
          (mountClosure, \<lparr>el_value = ''c'', scrollHeight = 21, clientHeight = 20\<rparr>)]
       = [(- 12, 3, 4, ''a''), (- 12, - 11, 4, ''b''), (- 12, 1, 4, ''c'')]
   \<and> isMultiline (evaluations
        (take 2 [(mountClosure, \<lparr>el_value = ''a'', scrollHeight = 23, clientHeight = 20\<rparr>),
                 (mountClosure\<lparr>captured_isMultiline := True\<rparr>,
                  \<lparr>el_value = ''b'', scrollHeight = 9, clientHeight = 20\<rparr>),
                 (mountClosure, \<lparr>el_value = ''c'', scrollHeight = 21, clientHeight = 20\<rparr>)])
        (init_hook\<lparr>baseHeightRef := Some 20, isMultiline := True\<rparr>))"
  using dead_band_no_flicker
    [where s = "init_hook\<lparr>baseHeightRef := Some 20, isMultiline := True\<rparr>" and b = 20
       and k = 2
       and ps = "[(mountClosure, \<lparr>el_value = ''a'', scrollHeight = 23, clientHeight = 20\<rparr>),
                  (mountClosure\<lparr>captured_isMultiline := True\<rparr>,
                   \<lparr>el_value = ''b'', scrollHeight = 9, clientHeight = 20\<rparr>),
                  (mountClosure, \<lparr>el_value = ''c'', scrollHeight = 21, clientHeight = 20\<rparr>)]"]
  by (simp add: overflowHeight_def mountClosure_def)

text \<open>
  C8, as the code has it. When \<open>measure\<close> on non-empty content takes \<open>isMultiline\<close> from
  true to false, the baseline it leaves is the \<open>scrollHeight\<close> it read, so the overflow of
  the same readings against the new baseline is 0; and a second \<open>measure\<close> with the same
  readings, by any closure whose \<open>threshold\<close> is not negative, changes nothing.
\<close>

theorem release_recalibrates:
  assumes ne: "el_value e \<noteq> []" and before: "isMultiline s"
    and after: "\<not> isMultiline (measure_textarea c (Some e) s)"
  shows "baseHeightRef (measure_textarea c (Some e) s) = Some (scrollHeight e)
         \<and> overflowHeight e (measure_textarea c (Some e) s) = 0
         \<and> (0 \<le> threshold c' \<longrightarrow>
              measure_textarea c' (Some e) (measure_textarea c (Some e) s)
                = measure_textarea c (Some e) s)"
proof -
  let ?m = "measure_textarea c (Some e) s"
  have base: "baseHeightRef ?m = Some (scrollHeight e)"
    using ne before after
    by (auto simp: measure_textarea_def calibrate_def Let_def split: if_splits option.splits)
  then have ov: "overflowHeight e ?m = 0"
    by (simp add: overflowHeight_def)
  have "measure_textarea c' (Some e) ?m = ?m" if "0 \<le> threshold c'"
  proof -
    have "?m\<lparr>isMultiline := False, baseHeightRef := Some (scrollHeight e)\<rparr> = ?m"
      using after base by (simp add: set_isMultiline_same set_baseHeightRef_same)
    then show ?thesis
      using that by (simp add: measure_calibrated [OF ne base])
  qed
  with base ov show ?thesis by blast
qed

theorem release_recalibrates_witness:
  "el_value \<lparr>el_value = ''a'', scrollHeight = 7, clientHeight = 20\<rparr> \<noteq> []
   \<and> isMultiline (init_hook\<lparr>baseHeightRef := Some 20, isMultiline := True\<rparr>)
   \<and> \<not> isMultiline (measure_textarea (mountClosure\<lparr>captured_isMultiline := True\<rparr>)
         (Some \<lparr>el_value = ''a'', scrollHeight = 7, clientHeight = 20\<rparr>)
         (init_hook\<lparr>baseHeightRef := Some 20, isMultiline := True\<rparr>))
   \<and> baseHeightRef (measure_textarea (mountClosure\<lparr>captured_isMultiline := True\<rparr>)
         (Some \<lparr>el_value = ''a'', scrollHeight = 7, clientHeight = 20\<rparr>)
         (init_hook\<lparr>baseHeightRef := Some 20, isMultiline := True\<rparr>)) = Some 7
   \<and> 0 \<le> threshold mountClosure
   \<and> measure_textarea mountClosure
        (Some \<lparr>el_value = ''a'', scrollHeight = 7, clientHeight = 20\<rparr>)
        (measure_textarea (mountClosure\<lparr>captured_isMultiline := True\<rparr>)
           (Some \<lparr>el_value = ''a'', scrollHeight = 7, clientHeight = 20\<rparr>)
           (init_hook\<lparr>baseHeightRef := Some 20, isMultiline := True\<rparr>))
      = measure_textarea (mountClosure\<lparr>captured_isMultiline := True\<rparr>)
          (Some \<lparr>el_value = ''a'', scrollHeight = 7, clientHeight = 20\<rparr>)
          (init_hook\<lparr>baseHeightRef := Some 20, isMultiline := True\<rparr>)"
proof -
  have rel: "\<not> isMultiline (measure_textarea (mountClosure\<lparr>captured_isMultiline := True\<rparr>)
         (Some \<lparr>el_value = ''a'', scrollHeight = 7, clientHeight = 20\<rparr>)
         (init_hook\<lparr>baseHeightRef := Some 20, isMultiline := True\<rparr>))"
    by (simp add: measure_textarea_def calibrate_def overflowHeight_def mountClosure_def
        Let_def)
  show ?thesis
    using rel release_recalibrates
      [where e = "\<lparr>el_value = ''a'', scrollHeight = 7, clientHeight = 20\<rparr>"
         and s = "init_hook\<lparr>baseHeightRef := Some 20, isMultiline := True\<rparr>"
         and c = "mountClosure\<lparr>captured_isMultiline := True\<rparr>" and c' = mountClosure]
    by (simp add: mountClosure_def)
qed

text \<open>
  C8 as the specification states it fails for a negative threshold. With
  \<open>threshold = -1\<close> and \<open>releaseThreshold = 12\<close> the mounting effect measures 20/20 and
  sets \<open>isMultiline\<close> (baseline 20); the effect runs again on readings 5/20 and releases
  (\<open>isMultiline\<close> from true to false, baseline 5); it runs once more on the same readings,
  finds overflow \<open>0 > -1\<close> and sets \<open>isMultiline\<close> again.
\<close>

theorem release_recalibrates_counterexample:
  "map_option isMultiline
     (run [EffectRuns (- 1) 12
             (Some \<lparr>el_value = ''ab'', scrollHeight = 20, clientHeight = 20\<rparr>)] init_hook)
     = Some True
   \<and> map_option isMultiline
     (run [EffectRuns (- 1) 12
             (Some \<lparr>el_value = ''ab'', scrollHeight = 20, clientHeight = 20\<rparr>),
           EffectRuns (- 1) 12
             (Some \<lparr>el_value = ''a'', scrollHeight = 5, clientHeight = 20\<rparr>)] init_hook)
     = Some False
   \<and> map_option isMultiline
     (run [EffectRuns (- 1) 12
             (Some \<lparr>el_value = ''ab'', scrollHeight = 20, clientHeight = 20\<rparr>),
           EffectRuns (- 1) 12
             (Some \<lparr>el_value = ''a'', scrollHeight = 5, clientHeight = 20\<rparr>),
           EffectRuns (- 1) 12
             (Some \<lparr>el_value = ''a'', scrollHeight = 5, clientHeight = 20\<rparr>)] init_hook)
     = Some True"
  by (simp add: exec_def runEffect_def clearPendingTimers_def measure_textarea_def
      calibrate_def overflowHeight_def init_hook_def Let_def)

text \<open>
  C9, the code at the failing input. After \<open>staleFollowUpPending\<close> the stale follow-up
  fires on an empty field and leaves the baseline \<open>null\<close> with \<open>isMultiline\<close> true. The
  user types; the debounced \<open>measure\<close> is the first on non-empty content with a \<open>null\<close>
  baseline. Its readings are 20/20, so \<open>scrollHeight \<le> clientHeight + 4\<close>, and
  \<open>isMultiline\<close> is true after the call.
\<close>

theorem first_measurement_after_stale_reset:
  "map_option baseHeightRef
       (run (staleFollowUpPending @ [TimeoutFires 2 emptyField, Input (Some ''insertText'')])
          init_hook) = Some None
   \<and> scrollHeight oneLine \<le> clientHeight oneLine + 4
   \<and> el_value oneLine \<noteq> []
   \<and> map_option isMultiline
       (run (staleFollowUpPending @ [TimeoutFires 2 emptyField, Input (Some ''insertText''),
                                     TimeoutFires 3 oneLine]) init_hook) = Some True"
  unfolding run_append staleFollowUpPending_state
  by (simp add: exec_def clearTimeout_def followUp_def
      handleInput_def debouncedMeasure_raw setTimeout_def
      measure_textarea_def calibrate_def overflowHeight_def
      emptyField_def oneLine_def mountClosure_def init_hook_def Let_def)

text \<open>
  What the code does achieve: for a threshold that is not negative, a closure that
  captured \<open>false\<close>, running in a state whose \<open>isMultiline\<close> is false and whose baseline
  is \<open>null\<close>, ends with \<open>isMultiline\<close> true exactly when
  \<open>scrollHeight > clientHeight + threshold\<close>; and whatever the closure and the state, a
  measurement calibrated to overflow 0 never sets \<open>isMultiline\<close>.
\<close>

lemma first_measurement_multiline_iff:
  assumes "baseHeightRef s = None" and "el_value e \<noteq> []" and "0 \<le> threshold c"
  shows "(\<not> captured_isMultiline c \<and> \<not> isMultiline s \<longrightarrow>
            (isMultiline (measure_textarea c (Some e) s)
               \<longleftrightarrow> scrollHeight e > clientHeight e + threshold c))
         \<and> (scrollHeight e \<le> clientHeight e + threshold c \<longrightarrow>
              overflowHeight e (calibrate (threshold c) e s) = 0
              \<and> (isMultiline (measure_textarea c (Some e) s) \<longrightarrow> isMultiline s))"
  using assms
  by (auto simp: measure_textarea_def calibrate_def overflowHeight_def Let_def)

text \<open>
  C10, the code at the failing input. The run \<open>staleFollowUpPending\<close> followed by the
  stale follow-up firing on an empty field ends with \<open>baseHeightRef = null\<close> and
  \<open>isMultiline = true\<close>.
\<close>

theorem multiline_with_null_baseline:
  "run (staleFollowUpPending @ [TimeoutFires 2 emptyField]) init_hook
     = Some (init_hook\<lparr>baseHeightRef := None, isMultiline := True,
                        nextTimeout := 3, nextFrame := 3,
                        listeners := Some (mountClosure\<lparr>captured_isMultiline := True\<rparr>)\<rparr>)"
  unfolding run_append staleFollowUpPending_state
  by (simp add: exec_def clearTimeout_def followUp_def
      measure_textarea_def emptyField_def mountClosure_def init_hook_def Let_def)

text \<open>
  What the code does achieve: a \<open>measure\<close> call whose closure captured the current
  \<open>isMultiline\<close> preserves that \<open>isMultiline\<close> implies a baseline.
\<close>

lemma measure_current_inv:
  assumes "captured_isMultiline c = isMultiline s"
    and "isMultiline s \<longrightarrow> baseHeightRef s \<noteq> None"
  shows "isMultiline (measure_textarea c el s) \<longrightarrow>
         baseHeightRef (measure_textarea c el s) \<noteq> None"
proof (cases el)
  case None
  with assms(2) show ?thesis by (simp add: measure_textarea_def)
next
  case (Some e)
  show ?thesis
  proof (cases "el_value e = []")
    case True
    with Some assms(1) show ?thesis by (simp add: measure_empty)
  next
    case False
    then have "baseHeightRef (measure_textarea c (Some e) s) \<noteq> None"
      by (cases "baseHeightRef s") (simp_all add: measure_textarea_def calibrate_def Let_def)
    with Some show ?thesis by simp
  qed
qed

section \<open>Claims about runs of the hook\<close>

text \<open>
  C4, as the code has it. After any run of events from the initial state, the baseline is
  \<open>null\<close> or a \<open>scrollHeight\<close> or a \<open>clientHeight\<close> that \<open>measure\<close> has read during
  the run.
\<close>

theorem baseline_is_observed_height:
  assumes "run evs init_hook = Some s"
  shows "baselineFrom (map scrollHeight (readings evs) @ map clientHeight (readings evs)) s"
proof (cases "baseHeightRef s")
  case None
  then show ?thesis by (simp add: baselineFrom_def)
next
  case (Some b)
  from run_baseline [OF assms Some] have
    "\<exists>e \<in> set (readings evs). b = scrollHeight e \<or> b = clientHeight e"
    by (simp add: init_hook_def)
  then show ?thesis using Some by (auto simp: baselineFrom_def)
qed

theorem baseline_is_observed_height_witness:
  "run [EffectRuns 4 12 (Some pastedText)] init_hook
     = Some (init_hook\<lparr>baseHeightRef := Some 20, isMultiline := True,
                        listeners := Some mountClosure\<rparr>)
   \<and> baselineFrom
       (map scrollHeight (readings [EffectRuns 4 12 (Some pastedText)])
        @ map clientHeight (readings [EffectRuns 4 12 (Some pastedText)]))
       (init_hook\<lparr>baseHeightRef := Some 20, isMultiline := True,
                   listeners := Some mountClosure\<rparr>)"
proof -
  have r: "run [EffectRuns 4 12 (Some pastedText)] init_hook
             = Some (init_hook\<lparr>baseHeightRef := Some 20, isMultiline := True,
                                listeners := Some mountClosure\<rparr>)"
    by (simp add: exec_def runEffect_def measure_textarea_def calibrate_def
        overflowHeight_def init_hook_def pastedText_def mountClosure_def Let_def)
  from r baseline_is_observed_height [OF r] show ?thesis by blast
qed

text \<open>
  C4 as the specification states it fails: the first measurement of overflowing content
  (\<open>scrollHeight = 50\<close>, \<open>clientHeight = 20\<close>, threshold 4) sets the baseline to the
  \<open>clientHeight\<close>, 20, and the only \<open>scrollHeight\<close> read so far is 50.
\<close>

theorem baseline_is_observed_height_counterexample:
  "run [EffectRuns 4 12 (Some pastedText)] init_hook
     = Some (init_hook\<lparr>baseHeightRef := Some 20, isMultiline := True,
                        listeners := Some mountClosure\<rparr>)
   \<and> map scrollHeight (readings [EffectRuns 4 12 (Some pastedText)]) = [50]
   \<and> \<not> baselineFrom (map scrollHeight (readings [EffectRuns 4 12 (Some pastedText)]))
       (init_hook\<lparr>baseHeightRef := Some 20, isMultiline := True,
                   listeners := Some mountClosure\<rparr>)"
  by (simp add: exec_def runEffect_def measure_textarea_def calibrate_def
      overflowHeight_def init_hook_def pastedText_def mountClosure_def baselineFrom_def
      Let_def)




text \<open>
  C7. In a state the hook can be in with a debounce timeout \<open>h\<close> pending, once a paste
  notification (a \<open>paste\<close> event, or an \<open>input\<close> event of type \<open>insertFromPaste\<close>) has been
  handled, no continuation of the run ever fires \<open>h\<close>; right after the notification no
  debounce timeout is pending, and the frame request made last is the new one, of the
  effect run whose listeners handled the notification.
\<close>

theorem paste_preempts_debounce:
  assumes "reachable s" and "h \<in> set (pendingDebounced s)"
    and "ev = Paste \<or> ev = Input (Some ''insertFromPaste'')"
    and "exec ev s = Some s1"
    and "run evs s1 = Some s'"
  shows "(\<forall>e. TimeoutFires h e \<notin> set evs)
         \<and> pendingDebounced s1 = []
         \<and> nextFrame s \<in> fst ` set (frames s1)
         \<and> fst (last (frames s1)) = nextFrame s
         \<and> Some (snd (last (frames s1))) = listeners s"
proof -
  from assms(1) have inv: "sched_inv s" by (rule reachable_sched_inv)
  from assms(3,4) obtain c where c: "listeners s = Some c"
    and s1: "s1 = measureAfterFrame c (clearPendingTimers s)"
    by (auto simp: exec_def handleInput_def handlePaste_def split: option.splits)
  from pendingDebounced_ref [OF inv assms(2)] have ref: "debounceTimerRef s = Some h" .
  from assms(2) inv have "h < nextTimeout s"
    by (auto simp: pendingDebounced_def sched_inv_def)
  then have "h < nextTimeout s1" "h \<notin> fst ` set (timeouts s1)"
    using ref by (auto simp: s1 paste_raw)
  with run_dead_handle [OF assms(5)] have dead: "\<forall>e. TimeoutFires h e \<notin> set evs" by blast
  have "pendingDebounced s1 = []"
    by (simp add: s1 paste_raw pendingDebounced_def nonDebounced_timeouts [OF inv])
  with dead c show ?thesis by (simp add: s1 paste_raw)
qed

theorem paste_preempts_debounce_witness:
  "reachable (init_hook\<lparr>debounceTimerRef := Some 1,
                        timeouts := [(1, Debounced mountClosure)],
                        nextTimeout := 2, listeners := Some mountClosure\<rparr>)
   \<and> 1 \<in> set (pendingDebounced (init_hook\<lparr>debounceTimerRef := Some 1,
                        timeouts := [(1, Debounced mountClosure)],
                        nextTimeout := 2, listeners := Some mountClosure\<rparr>))
   \<and> exec Paste (init_hook\<lparr>debounceTimerRef := Some 1,
                        timeouts := [(1, Debounced mountClosure)],
                        nextTimeout := 2, listeners := Some mountClosure\<rparr>)
       = Some (init_hook\<lparr>rafRef := Some 1, frames := [(1, mountClosure)], nextTimeout := 2,
                          nextFrame := 2, listeners := Some mountClosure\<rparr>)
   \<and> run [FrameFires 1, TimeoutFires 2 pastedText]
         (init_hook\<lparr>rafRef := Some 1, frames := [(1, mountClosure)], nextTimeout := 2,
                     nextFrame := 2, listeners := Some mountClosure\<rparr>)
       = Some (init_hook\<lparr>baseHeightRef := Some 20, isMultiline := True,
                          nextTimeout := 3, nextFrame := 2, listeners := Some mountClosure\<rparr>)
   \<and> (\<forall>e. TimeoutFires 1 e \<notin> set [FrameFires 1, TimeoutFires 2 pastedText])
   \<and> pendingDebounced
        (init_hook\<lparr>rafRef := Some 1, frames := [(1, mountClosure)], nextTimeout := 2,
                    nextFrame := 2, listeners := Some mountClosure\<rparr>) = []"
proof -
  let ?s = "init_hook\<lparr>debounceTimerRef := Some 1, timeouts := [(1, Debounced mountClosure)],
                      nextTimeout := 2, listeners := Some mountClosure\<rparr>"
  let ?s1 = "init_hook\<lparr>rafRef := Some 1, frames := [(1, mountClosure)], nextTimeout := 2,
                       nextFrame := 2, listeners := Some mountClosure\<rparr>"
  let ?evs = "[FrameFires 1, TimeoutFires 2 pastedText]"
  have r: "reachable ?s"
    using run_reachable [OF reachable_init mounted_typing] .
  have p: "1 \<in> set (pendingDebounced ?s)"
    by (simp add: pendingDebounced_def)
  have e: "exec Paste ?s = Some ?s1"
    by (simp add: exec_def handlePaste_def paste_raw init_hook_def)
  have c: "run ?evs ?s1
       = Some (init_hook\<lparr>baseHeightRef := Some 20, isMultiline := True,
                          nextTimeout := 3, nextFrame := 2, listeners := Some mountClosure\<rparr>)"
    by (simp add: exec_def frameCallback_def cancelAnimationFrame_def setTimeout_def
        clearTimeout_def followUp_def measure_textarea_def calibrate_def overflowHeight_def
        init_hook_def pastedText_def mountClosure_def Let_def)
  from paste_preempts_debounce [OF r p _ e c] r p e c show ?thesis by blast
qed

end
